theory Spec2Isabelle
  imports Main
begin

section \<open>Python values and exceptions\<close>

text \<open>
  An exception that no handler of \<^verbatim>\<open>app.py\<close> catches leaves the view function; the
  framework then answers with status 500. A view function therefore yields
  \<open>Inl exception\<close> or \<open>Inr response\<close>.
\<close>

datatype py_error =
    KeyError
  | TypeError
  | AttributeError
  | IndexError
  | ValueError
  | UnicodeEncodeError
  | FileNotFoundError
  | UnidentifiedImageError

text \<open>List indexing \<^verbatim>\<open>xs[i]\<close> for a non-negative index.\<close>

definition py_index :: "'a list \<Rightarrow> nat \<Rightarrow> py_error + 'a" where
  "py_index xs i = (if i < length xs then Inr (xs ! i) else Inl IndexError)"

section \<open>Upload validation\<close>

text \<open>
  \<^verbatim>\<open>str.lower\<close> on the ASCII range. A file name is a list of characters; of the letters
  of \<^verbatim>\<open>png\<close>, \<^verbatim>\<open>jpg\<close> and \<^verbatim>\<open>jpeg\<close> none is the lower case of a character outside ASCII.
\<close>

definition lower_char :: "char \<Rightarrow> char" where
  "lower_char c =
     (case map_of (zip ''ABCDEFGHIJKLMNOPQRSTUVWXYZ'' ''abcdefghijklmnopqrstuvwxyz'') c of
        Some l \<Rightarrow> l
      | None \<Rightarrow> c)"

definition lower :: "string \<Rightarrow> string" where
  "lower s = map lower_char s"

text \<open>\<^verbatim>\<open>s.rfind(c)\<close>: the index of the last occurrence of \<open>c\<close>, \<open>None\<close> for Python's -1.\<close>

fun rfind :: "string \<Rightarrow> char \<Rightarrow> nat option" where
  "rfind [] c = None"
| "rfind (x # xs) c =
     (case rfind xs c of
        Some i \<Rightarrow> Some (Suc i)
      | None \<Rightarrow> if x = c then Some 0 else None)"

text \<open>\<^verbatim>\<open>s.rsplit(sep, 1)\<close>: at most one split, at the rightmost separator.\<close>

definition rsplit :: "string \<Rightarrow> char \<Rightarrow> string list" where
  "rsplit s sep =
     (case rfind s sep of
        None \<Rightarrow> [s]
      | Some i \<Rightarrow> [take i s, drop (Suc i) s])"

definition ALLOWED_EXTENSIONS :: "string list" where
  "ALLOWED_EXTENSIONS = [''png'', ''jpg'', ''jpeg'']"

text \<open>
  \<^verbatim>\<open>'.' in filename and filename.rsplit('.', 1)[1].lower() in ALLOWED_EXTENSIONS\<close>;
  \<^verbatim>\<open>and\<close> evaluates its right operand only when the left one holds.
\<close>

definition allowed_file :: "string \<Rightarrow> py_error + bool" where
  "allowed_file filename =
     (if CHR ''.'' \<in> set filename
      then (case py_index (rsplit filename (CHR ''.'')) 1 of
              Inl e \<Rightarrow> Inl e
            | Inr ext \<Rightarrow> Inr (lower ext \<in> set ALLOWED_EXTENSIONS))
      else Inr False)"

section \<open>JSON request bodies\<close>

text \<open>
  A Python \<^verbatim>\<open>str\<close> that arrives in a JSON body is the list of its code points, so that
  \<^verbatim>\<open>"\ud800"\<close> is \<open>[55296]\<close>; \<open>ustr\<close> gives the text of an ASCII literal. A \<^verbatim>\<open>bytes\<close>
  value is the list of its bytes, as numbers below 256.
\<close>

definition ustr :: "string \<Rightarrow> nat list" where
  "ustr s = map of_char s"

text \<open>
  A field value of a JSON body, as \<^verbatim>\<open>request.get_json()\<close> hands it to the view: \<^verbatim>\<open>None\<close>,
  an integer or a string. On these, Python's \<^verbatim>\<open>==\<close> and the store's equality match agree with
  equality of the datatype. Booleans, floats, arrays and nested objects as field values are
  outside the model.
\<close>

datatype jval = JNull | JNum int | JStr "nat list"

text \<open>
  The value of \<^verbatim>\<open>request.get_json()\<close>: \<^verbatim>\<open>None\<close>, a dict, or any other JSON value (array,
  string, number, boolean), of which the views only ever use the truth value. Requests that
  the framework refuses before the view runs are outside the model.
\<close>

datatype body = NoJson | Dict "(string \<times> jval) list" | NonDict bool

text \<open>Python's truth value, as \<^verbatim>\<open>not x\<close> tests it.\<close>

fun truthy :: "jval \<Rightarrow> bool" where
  "truthy JNull = False"
| "truthy (JNum n) = (n \<noteq> 0)"
| "truthy (JStr s) = (s \<noteq> [])"

fun body_truthy :: "body \<Rightarrow> bool" where
  "body_truthy NoJson = False"
| "body_truthy (Dict kv) = (kv \<noteq> [])"
| "body_truthy (NonDict b) = b"

text \<open>\<^verbatim>\<open>data[key]\<close>: only a dict can be subscripted by a string.\<close>

fun getitem :: "body \<Rightarrow> string \<Rightarrow> py_error + jval" where
  "getitem (Dict kv) key = (case map_of kv key of None \<Rightarrow> Inl KeyError | Some v \<Rightarrow> Inr v)"
| "getitem NoJson key = Inl TypeError"
| "getitem (NonDict b) key = Inl TypeError"

text \<open>\<^verbatim>\<open>data.get(key)\<close>: only a dict has the method; an absent key gives \<^verbatim>\<open>None\<close>.\<close>

fun dict_get :: "body \<Rightarrow> string \<Rightarrow> py_error + jval" where
  "dict_get (Dict kv) key = Inr (case map_of kv key of None \<Rightarrow> JNull | Some v \<Rightarrow> v)"
| "dict_get NoJson key = Inl AttributeError"
| "dict_get (NonDict b) key = Inl AttributeError"

text \<open>The code points U+D800 to U+DFFF, which UTF-8 does not encode.\<close>

definition surrogate :: "nat \<Rightarrow> bool" where
  "surrogate c = (55296 \<le> c \<and> c \<le> 57343)"

text \<open>The UTF-8 bytes of one code point.\<close>

definition utf8 :: "nat \<Rightarrow> nat list" where
  "utf8 c =
     (if c < 128 then [c]
      else if c < 2048 then [192 + c div 64, 128 + c mod 64]
      else if c < 65536 then [224 + c div 4096, 128 + c div 64 mod 64, 128 + c mod 64]
      else [240 + c div 262144, 128 + c div 4096 mod 64, 128 + c div 64 mod 64,
            128 + c mod 64])"

text \<open>
  \<^verbatim>\<open>v.encode()\<close>: only a string has the method, and it raises on a string with a
  surrogate code point.
\<close>

fun str_encode :: "jval \<Rightarrow> py_error + nat list" where
  "str_encode (JStr t) =
     (if list_ex surrogate t then Inl UnicodeEncodeError else Inr (concat (map utf8 t)))"
| "str_encode JNull = Inl AttributeError"
| "str_encode (JNum n) = Inl AttributeError"

section \<open>Password hashing\<close>

text \<open>
  \<^verbatim>\<open>bcrypt\<close> as an ideal salted hash: a hash value determines its salt and its password, and
  \<^verbatim>\<open>checkpw\<close> hashes the candidate again under the salt of the stored value. Both functions
  raise \<^verbatim>\<open>ValueError\<close> on a password of more than 72 bytes. The salt that \<^verbatim>\<open>gensalt()\<close> draws
  is an input of the view.
\<close>

datatype bcrypt_hash = Bcrypt (hash_salt: string) (hash_password: "nat list")

definition hashpw :: "nat list \<Rightarrow> string \<Rightarrow> py_error + bcrypt_hash" where
  "hashpw pw salt = (if 72 < length pw then Inl ValueError else Inr (Bcrypt salt pw))"

definition checkpw :: "nat list \<Rightarrow> bcrypt_hash \<Rightarrow> py_error + bool" where
  "checkpw pw hashed =
     (case hashpw pw (hash_salt hashed) of
        Inl e \<Rightarrow> Inl e
      | Inr h \<Rightarrow> Inr (h = hashed))"

section \<open>Signed tokens\<close>

text \<open>
  The clock: \<^verbatim>\<open>datetime.utcnow()\<close> and the time at which a token is checked are counted in
  microseconds. \<^verbatim>\<open>timegm(t.utctimetuple())\<close> is the whole seconds of a time.
\<close>

definition timegm :: "int \<Rightarrow> int" where
  "timegm t = t div 1000000"

text \<open>
  The payload that \<^verbatim>\<open>login\<close> hands to \<^verbatim>\<open>jwt.encode\<close>, whose \<^verbatim>\<open>exp\<close> is a datetime, and
  the claims of a token, whose \<^verbatim>\<open>exp\<close> is a number of whole seconds.
\<close>

datatype payload = Payload string jval int

datatype claims = Claims (userId: string) (claim_name: jval) (exp: int)

text \<open>
  The text of an \<^verbatim>\<open>Authorization\<close> header, symbolically: \<open>Signed k c\<close> is the HS256 token
  made from payload \<open>c\<close> with key \<open>k\<close>; \<open>Text t\<close> is any other header text, the empty
  one included. Signatures are ideal: only \<open>Signed k c\<close> verifies under \<open>k\<close>.
\<close>

datatype bearer = Text string | Signed string claims

text \<open>\<^verbatim>\<open>jwt.encode\<close> turns a datetime \<^verbatim>\<open>exp\<close> into whole seconds before it signs.\<close>

fun jwt_encode :: "payload \<Rightarrow> string \<Rightarrow> bearer" where
  "jwt_encode (Payload uid nm expiry) key = Signed key (Claims uid nm (timegm expiry))"

datatype jwt_error = ExpiredSignatureError | InvalidTokenError

text \<open>
  \<^verbatim>\<open>jwt.decode(token, key, algorithms=["HS256"])\<close> at time \<open>now\<close>: the signature is checked
  first, then the expiry (\<^verbatim>\<open>exp <= now\<close> is expired, with \<^verbatim>\<open>exp\<close> in seconds and \<open>now\<close> in
  microseconds).
\<close>

fun jwt_decode :: "bearer \<Rightarrow> string \<Rightarrow> int \<Rightarrow> jwt_error + claims" where
  "jwt_decode (Text t) key now = Inl InvalidTokenError"
| "jwt_decode (Signed k c) key now =
     (if k \<noteq> key then Inl InvalidTokenError
      else if exp c * 1000000 \<le> now then Inl ExpiredSignatureError
      else Inr c)"

text \<open>\<^verbatim>\<open>not token\<close> on a header text: only the empty text is false.\<close>

fun token_truthy :: "bearer \<Rightarrow> bool" where
  "token_truthy (Text t) = (t \<noteq> [])"
| "token_truthy (Signed k payload) = True"

section \<open>The user collection\<close>

text \<open>
  A document of the collection \<^verbatim>\<open>users\<close>: the fields \<^verbatim>\<open>register\<close> writes, and the
  \<^verbatim>\<open>_id\<close> that the store assigns (an ObjectId, here a number). The store keeps a datetime
  in whole milliseconds.
\<close>

record user =
  oid :: nat
  name :: jval
  email :: jval
  password :: bcrypt_hash
  q1 :: jval
  q2 :: jval
  createdAt :: int

text \<open>\<^verbatim>\<open>users.find_one({"email": e})\<close>: the first document whose email equals \<open>e\<close>.\<close>

definition find_one :: "jval \<Rightarrow> user list \<Rightarrow> user option" where
  "find_one e us = find (\<lambda>u. email u = e) us"

text \<open>\<^verbatim>\<open>users.update_one({"email": e}, {"$set": {"password": h}})\<close>: the first match only.\<close>

fun update_one :: "jval \<Rightarrow> bcrypt_hash \<Rightarrow> user list \<Rightarrow> user list" where
  "update_one e h [] = []"
| "update_one e h (u # us) =
     (if email u = e then u\<lparr>password := h\<rparr> # us else u # update_one e h us)"

text \<open>\<^verbatim>\<open>users.delete_one({"_id": i})\<close>: the first match only.\<close>

fun delete_one :: "nat \<Rightarrow> user list \<Rightarrow> user list" where
  "delete_one i [] = []"
| "delete_one i (u # us) = (if oid u = i then us else u # delete_one i us)"

text \<open>\<^verbatim>\<open>str(ObjectId)\<close>: 24 hexadecimal digits.\<close>

fun hex :: "nat \<Rightarrow> nat \<Rightarrow> string" where
  "hex 0 n = []"
| "hex (Suc k) n = hex k (n div 16) @ [''0123456789abcdef'' ! (n mod 16)]"

definition str_oid :: "nat \<Rightarrow> string" where
  "str_oid i = hex 24 i"

text \<open>
  A document as a view reads it from the store: the \<^verbatim>\<open>_id\<close>, which every document has,
  and the other fields by name.
\<close>

datatype field = Json jval | Binary bcrypt_hash | Datetime int

datatype 'a doc = Doc (doc_id: 'a) (doc_fields: "(string \<times> field) list")

definition doc_of :: "user \<Rightarrow> nat doc" where
  "doc_of u =
     Doc (oid u)
       [(''name'', Json (name u)), (''email'', Json (email u)),
        (''password'', Binary (password u)), (''q1'', Json (q1 u)),
        (''q2'', Json (q2 u)), (''createdAt'', Datetime (createdAt u))]"

text \<open>\<^verbatim>\<open>users.find({}, {"password": 0})\<close>: every document, the excluded field dropped.\<close>

definition find_excluding :: "string \<Rightarrow> user list \<Rightarrow> nat doc list" where
  "find_excluding key us =
     map (\<lambda>u. case doc_of u of Doc i fs \<Rightarrow> Doc i (filter (\<lambda>(k, v). k \<noteq> key) fs)) us"

section \<open>The classifier\<close>

definition classes :: "string list" where
  "classes =
     [''Tomato_Bacterial_Spot'', ''Tomato_Early_Blight'', ''Tomato_Leaf_Mold'',
      ''Tomato_Septoria_Spot'', ''Tomato_Yellow_Leaf_Curl'', ''Tomato_Healthy'',
      ''Potato_Early_Blight'', ''Potato_Late_Blight'', ''Potato_Healthy'',
      ''Corn_Common_Rust'']"

text \<open>
  \<^verbatim>\<open>TinyCNN.forward\<close> ends in \<^verbatim>\<open>fc2 = nn.Linear(64, num_classes)\<close>: one raw score per class
  index. The trained parameters are \<open>w\<close>, where \<open>w x k\<close> is the score the layers compute
  for input tensor \<open>x\<close> and class index \<open>k\<close>; scores are compared in a linear order.
\<close>

definition forward :: "nat \<Rightarrow> ('t \<Rightarrow> nat \<Rightarrow> 's) \<Rightarrow> 't \<Rightarrow> 's list" where
  "forward num_classes w x = map (w x) [0..<num_classes]"

text \<open>\<^verbatim>\<open>model = TinyCNN(num_classes=len(classes))\<close>, applied to one input.\<close>

definition model :: "('t \<Rightarrow> nat \<Rightarrow> 's) \<Rightarrow> 't \<Rightarrow> 's list" where
  "model w x = forward (length classes) w x"

text \<open>
  \<^verbatim>\<open>torch.max(outputs, 1)\<close> on one row: the maximal value and the index of its first
  occurrence; \<open>None\<close> when the row is empty, where \<^verbatim>\<open>torch\<close> raises.
\<close>

fun torch_max :: "('s::linorder) list \<Rightarrow> ('s \<times> nat) option" where
  "torch_max [] = None"
| "torch_max (x # xs) =
     (case torch_max xs of
        None \<Rightarrow> Some (x, 0)
      | Some (m, i) \<Rightarrow> if m \<le> x then Some (x, 0) else Some (m, Suc i))"

datatype info = Info (info_definition: string) (info_color: string) (health_status: string)

definition disease_info :: "(string \<times> info) list" where
  "disease_info =
     [(''Tomato_Bacterial_Spot'',
         Info ''Bacterial spots on leaves and fruits.'' ''red'' ''Unhealthy''),
      (''Tomato_Early_Blight'',
         Info ''Fungal dark spots on older leaves.'' ''brown'' ''Unhealthy''),
      (''Tomato_Leaf_Mold'',
         Info ''Yellow spots with mold under leaves.'' ''orange'' ''Unhealthy''),
      (''Tomato_Septoria_Spot'',
         Info ''Gray-centered circular spots.'' ''gray'' ''Unhealthy''),
      (''Tomato_Yellow_Leaf_Curl'',
         Info ''Curling and yellowing of leaves.'' ''yellow'' ''Unhealthy''),
      (''Tomato_Healthy'',
         Info ''Healthy tomato leaf.'' ''green'' ''Healthy''),
      (''Potato_Early_Blight'',
         Info ''Brown spots with rings on leaves.'' ''brown'' ''Unhealthy''),
      (''Potato_Late_Blight'',
         Info ''Rapid lesions on leaves and stems.'' ''darkred'' ''Unhealthy''),
      (''Potato_Healthy'',
         Info ''Healthy potato foliage.'' ''green'' ''Healthy''),
      (''Corn_Common_Rust'',
         Info ''Red-brown pustules on corn leaves.'' ''red'' ''Unhealthy'')]"

text \<open>\<^verbatim>\<open>disease_info.get(predicted_class, {...})\<close> with the fallback entry of \<^verbatim>\<open>predict\<close>.\<close>

definition info_get :: "string \<Rightarrow> info" where
  "info_get predicted_class =
     (case map_of disease_info predicted_class of
        Some i \<Rightarrow> i
      | None \<Rightarrow> Info ''Unknown disease.'' ''gray'' ''Unknown'')"

section \<open>Server state and responses\<close>

text \<open>
  What the views read and write: the collection with the counter behind the identifiers
  the store assigns, the files under the upload folder (path and bytes), the trained
  parameters and the signing secret.
\<close>

record ('t, 's) server =
  users :: "user list"
  next_oid :: nat
  files :: "(string \<times> string) list"
  weights :: "'t \<Rightarrow> nat \<Rightarrow> 's"
  JWT_SECRET :: string

text \<open>
  The library functions of the upload path, fixed but not part of \<^verbatim>\<open>app.py\<close>:
  \<^verbatim>\<open>secure_filename\<close>, decoding \<^verbatim>\<open>Image.open(...).convert("RGB")\<close> of a file's bytes
  (\<open>None\<close> when the bytes are no image and the call raises) and the composed \<^verbatim>\<open>transform\<close>.
\<close>

record ('i, 't) libs =
  secure_filename :: "string \<Rightarrow> string"
  Image_open :: "string \<Rightarrow> 'i option"
  transform :: "'i \<Rightarrow> 't"

record upload =
  filename :: string
  content :: string

text \<open>
  A JSON response: \<open>Failure code msg\<close> is \<^verbatim>\<open>jsonify({'error': msg}), code\<close>; every other
  response has the default status 200.
\<close>

datatype response =
    Failure nat string
  | Message string
  | Prediction (result: string) (definition_text: string) (color: string) (healthy: bool)
      (image_url: string)
  | LoggedIn string bearer jval
  | UserList nat "string doc list"

fun status :: "response \<Rightarrow> nat" where
  "status (Failure code msg) = code"
| "status (Message msg) = 200"
| "status (Prediction r d c h u) = 200"
| "status (LoggedIn m t n) = 200"
| "status (UserList n us) = 200"

definition UPLOAD_FOLDER :: string where
  "UPLOAD_FOLDER = ''static/uploads''"

text \<open>\<^verbatim>\<open>os.path.join(a, b)\<close> for a folder \<open>a\<close> without a trailing slash.\<close>

definition path_join :: "string \<Rightarrow> string \<Rightarrow> string" where
  "path_join a b = (if take 1 b = ''/'' then b else a @ ''/'' @ b)"

text \<open>\<^verbatim>\<open>file.save(path)\<close> creates the file or replaces its bytes.\<close>

definition save :: "string \<Rightarrow> string \<Rightarrow> (string \<times> string) list \<Rightarrow> (string \<times> string) list" where
  "save path bytes fs = (path, bytes) # filter (\<lambda>(p, b). p \<noteq> path) fs"

text \<open>
  \<^verbatim>\<open>users.insert_one(user)\<close>: the store assigns the \<^verbatim>\<open>_id\<close> and keeps the datetime
  \<open>created\<close> in whole milliseconds.
\<close>

definition insert_one ::
  "jval \<Rightarrow> jval \<Rightarrow> bcrypt_hash \<Rightarrow> jval \<Rightarrow> jval \<Rightarrow> int \<Rightarrow> ('t, 's) server \<Rightarrow> ('t, 's) server" where
  "insert_one nm em hashed a1 a2 created s =
     s\<lparr>users := users s @
          [\<lparr>oid = next_oid s, name = nm, email = em, password = hashed,
            q1 = a1, q2 = a2, createdAt = created div 1000\<rparr>],
       next_oid := Suc (next_oid s)\<rparr>"

section \<open>The views\<close>

text \<open>
  Lines 135 to 155 of \<^verbatim>\<open>predict\<close>: open the saved file, classify it, look the label up.
\<close>

definition classify ::
  "('i, 't) libs \<Rightarrow> ('t, 's::linorder) server \<Rightarrow> string \<Rightarrow> string \<Rightarrow> py_error + response" where
  "classify L s filepath fname =
     (case map_of (files s) filepath of
        None \<Rightarrow> Inl FileNotFoundError
      | Some bytes \<Rightarrow>
         (case Image_open L bytes of
            None \<Rightarrow> Inl UnidentifiedImageError
          | Some img \<Rightarrow>
             (let input_tensor = transform L img;
                  outputs = model (weights s) input_tensor
              in case torch_max outputs of
                   None \<Rightarrow> Inl IndexError
                 | Some (m, predicted) \<Rightarrow>
                    (case py_index classes predicted of
                       Inl e \<Rightarrow> Inl e
                     | Inr predicted_class \<Rightarrow>
                        (let info = info_get predicted_class
                         in Inr (Prediction predicted_class (info_definition info)
                                  (info_color info) (health_status info = ''Healthy'')
                                  (''/static/uploads/'' @ fname)))))))"

text \<open>
  \<^verbatim>\<open>predict\<close>; its argument is the entry \<^verbatim>\<open>request.files['image']\<close>, if there is one. The
  file is saved before it is opened, and stays saved when opening it raises.
\<close>

definition predict ::
  "('i, 't) libs \<Rightarrow> upload option \<Rightarrow> ('t, 's::linorder) server
     \<Rightarrow> (py_error + response) \<times> ('t, 's) server" where
  "predict L image_file s =
     (case image_file of
        None \<Rightarrow> (Inr (Failure 400 ''No image uploaded''), s)
      | Some file \<Rightarrow>
         (case allowed_file (filename file) of
            Inl e \<Rightarrow> (Inl e, s)
          | Inr ok \<Rightarrow>
             (if \<not> ok then (Inr (Failure 400 ''Unsupported file type''), s)
              else
                (let fname = secure_filename L (filename file);
                     filepath = path_join UPLOAD_FOLDER fname;
                     s' = s\<lparr>files := save filepath (content file) (files s)\<rparr>
                 in (classify L s' filepath fname, s')))))"

text \<open>\<^verbatim>\<open>register\<close>; \<open>salt\<close> is what \<^verbatim>\<open>gensalt()\<close> draws and \<open>now\<close> is \<^verbatim>\<open>utcnow()\<close>.\<close>

definition register ::
  "body \<Rightarrow> string \<Rightarrow> int \<Rightarrow> ('t, 's) server \<Rightarrow> (py_error + response) \<times> ('t, 's) server" where
  "register data salt now s =
     (case getitem data ''email'' of
        Inl e \<Rightarrow> (Inl e, s)
      | Inr em \<Rightarrow>
         (case find_one em (users s) of
            Some u \<Rightarrow> (Inr (Failure 400 ''Email already exists''), s)
          | None \<Rightarrow>
             (case getitem data ''password'' of Inl e \<Rightarrow> (Inl e, s) | Inr pw \<Rightarrow>
             (case str_encode pw of Inl e \<Rightarrow> (Inl e, s) | Inr pwb \<Rightarrow>
             (case hashpw pwb salt of Inl e \<Rightarrow> (Inl e, s) | Inr hashed \<Rightarrow>
             (case getitem data ''name'' of Inl e \<Rightarrow> (Inl e, s) | Inr nm \<Rightarrow>
             (case getitem data ''email'' of Inl e \<Rightarrow> (Inl e, s) | Inr em' \<Rightarrow>
             (case getitem data ''q1'' of Inl e \<Rightarrow> (Inl e, s) | Inr a1 \<Rightarrow>
             (case getitem data ''q2'' of Inl e \<Rightarrow> (Inl e, s) | Inr a2 \<Rightarrow>
                (Inr (Message ''Registered successfully''),
                 insert_one nm em' hashed a1 a2 now s))))))))))"

text \<open>
  \<^verbatim>\<open>login\<close>; \<^verbatim>\<open>or\<close> does not evaluate the password check when no user was found. The
  expiry is \<^verbatim>\<open>utcnow() + timedelta(hours=2)\<close>. The view writes nothing.
\<close>

definition login :: "body \<Rightarrow> int \<Rightarrow> ('t, 's) server \<Rightarrow> py_error + response" where
  "login data now s =
     (case getitem data ''email'' of
        Inl e \<Rightarrow> Inl e
      | Inr em \<Rightarrow>
         (case find_one em (users s) of
            None \<Rightarrow> Inr (Failure 401 ''Invalid email or password'')
          | Some u \<Rightarrow>
             (case getitem data ''password'' of Inl e \<Rightarrow> Inl e | Inr pw \<Rightarrow>
             (case str_encode pw of Inl e \<Rightarrow> Inl e | Inr pwb \<Rightarrow>
             (case checkpw pwb (password u) of Inl e \<Rightarrow> Inl e | Inr ok \<Rightarrow>
                (if \<not> ok
                 then Inr (Failure 401 ''Invalid email or password'')
                 else
                   (let token =
                          jwt_encode
                            (Payload (str_oid (oid u)) (name u) (now + 2 * 3600 * 1000000))
                            (JWT_SECRET s)
                    in Inr (LoggedIn ''Logged in'' token (name u)))))))))"

definition forgot_password ::
  "body \<Rightarrow> string \<Rightarrow> ('t, 's) server \<Rightarrow> (py_error + response) \<times> ('t, 's) server" where
  "forgot_password data salt s =
     (case dict_get data ''email'' of Inl e \<Rightarrow> (Inl e, s) | Inr em \<Rightarrow>
     (case dict_get data ''q1'' of Inl e \<Rightarrow> (Inl e, s) | Inr a1 \<Rightarrow>
     (case dict_get data ''q2'' of Inl e \<Rightarrow> (Inl e, s) | Inr a2 \<Rightarrow>
     (case dict_get data ''newPass'' of Inl e \<Rightarrow> (Inl e, s) | Inr new_pass \<Rightarrow>
        (case find_one em (users s) of
           None \<Rightarrow> (Inr (Failure 404 ''User not found''), s)
         | Some u \<Rightarrow>
            (if q1 u \<noteq> a1 \<or> q2 u \<noteq> a2
             then (Inr (Failure 401 ''Security answers do not match''), s)
             else
               (case str_encode new_pass of Inl e \<Rightarrow> (Inl e, s) | Inr pwb \<Rightarrow>
               (case hashpw pwb salt of Inl e \<Rightarrow> (Inl e, s) | Inr hashed \<Rightarrow>
                  (Inr (Message ''Password updated successfully''),
                   s\<lparr>users := update_one em hashed (users s)\<rparr>)))))))))"

definition delete_account ::
  "body \<Rightarrow> ('t, 's) server \<Rightarrow> (py_error + response) \<times> ('t, 's) server" where
  "delete_account data s =
     (if \<not> body_truthy data then (Inr (Failure 400 ''Email and password required''), s)
      else
       (case dict_get data ''email'' of Inl e \<Rightarrow> (Inl e, s) | Inr ev \<Rightarrow>
         (if \<not> truthy ev then (Inr (Failure 400 ''Email and password required''), s)
          else
           (case dict_get data ''password'' of Inl e \<Rightarrow> (Inl e, s) | Inr pv \<Rightarrow>
             (if \<not> truthy pv then (Inr (Failure 400 ''Email and password required''), s)
              else
               (case getitem data ''email'' of Inl e \<Rightarrow> (Inl e, s) | Inr em \<Rightarrow>
                 (case find_one em (users s) of
                    None \<Rightarrow> (Inr (Failure 401 ''Invalid email or password''), s)
                  | Some u \<Rightarrow>
                     (case getitem data ''password'' of Inl e \<Rightarrow> (Inl e, s) | Inr pw \<Rightarrow>
                     (case str_encode pw of Inl e \<Rightarrow> (Inl e, s) | Inr pwb \<Rightarrow>
                     (case checkpw pwb (password u) of Inl e \<Rightarrow> (Inl e, s) | Inr ok \<Rightarrow>
                       (if \<not> ok
                        then (Inr (Failure 401 ''Invalid email or password''), s)
                        else (Inr (Message ''Account deleted successfully''),
                              s\<lparr>users := delete_one (oid u) (users s)\<rparr>))))))))))))"

text \<open>
  The decorator \<^verbatim>\<open>login_required\<close> around a view with response \<open>f\<close>; \<open>auth\<close> is
  \<^verbatim>\<open>request.headers.get('Authorization')\<close>.
\<close>

definition login_required :: "response \<Rightarrow> bearer option \<Rightarrow> int \<Rightarrow> string \<Rightarrow> response" where
  "login_required f auth now secret =
     (case auth of
        None \<Rightarrow> Failure 401 ''Token missing''
      | Some token \<Rightarrow>
         (if \<not> token_truthy token then Failure 401 ''Token missing''
          else
            (case jwt_decode token secret now of
               Inl ExpiredSignatureError \<Rightarrow> Failure 403 ''Token expired''
             | Inl InvalidTokenError \<Rightarrow> Failure 403 ''Invalid token''
             | Inr payload \<Rightarrow> f)))"

text \<open>The body of \<^verbatim>\<open>get_users\<close>, and the decorated view.\<close>

definition user_list :: "('t, 's) server \<Rightarrow> string doc list" where
  "user_list s =
     map (\<lambda>d. Doc (str_oid (doc_id d)) (doc_fields d)) (find_excluding ''password'' (users s))"

definition get_users :: "bearer option \<Rightarrow> int \<Rightarrow> ('t, 's) server \<Rightarrow> response" where
  "get_users auth now s =
     login_required (UserList (length (user_list s)) (user_list s)) auth now (JWT_SECRET s)"

section \<open>Requests in sequence\<close>

datatype request =
    POST_predict "upload option"
  | POST_register body string int
  | POST_login body int
  | POST_forgot_password body string
  | DELETE_delete body
  | GET_users "bearer option" int

fun step ::
  "('i, 't) libs \<Rightarrow> request \<Rightarrow> ('t, 's::linorder) server
     \<Rightarrow> (py_error + response) \<times> ('t, 's) server" where
  "step L (POST_predict image_file) s = predict L image_file s"
| "step L (POST_register data salt now) s = register data salt now s"
| "step L (POST_login data now) s = (login data now s, s)"
| "step L (POST_forgot_password data salt) s = forgot_password data salt s"
| "step L (DELETE_delete data) s = delete_account data s"
| "step L (GET_users auth now) s = (Inr (get_users auth now s), s)"

fun exec ::
  "('i, 't) libs \<Rightarrow> request list \<Rightarrow> ('t, 's::linorder) server \<Rightarrow> ('t, 's) server" where
  "exec L [] s = s"
| "exec L (r # rs) s = exec L rs (snd (step L r s))"


text \<open>
  The invariant of the collection: identifiers are unique and were all assigned by the
  store, and no two documents share an email (which \<^verbatim>\<open>register\<close> keeps by its lookup
  before the insert).
\<close>

definition store_ok :: "('t, 's) server \<Rightarrow> bool" where
  "store_ok s =
     (distinct (map oid (users s)) \<and> distinct (map email (users s)) \<and>
      list_all (\<lambda>u. oid u < next_oid s) (users s))"

section \<open>A small instance\<close>

text \<open>
  Concrete libraries, parameters and users on which the views can be run. The decoder
  refuses the empty file, as \<^verbatim>\<open>Image.open\<close> does; the parameters score class 5 highest.
\<close>

definition demo_libs :: "(nat, nat) libs" where
  "demo_libs =
     \<lparr>secure_filename = (\<lambda>f. f),
      Image_open = (\<lambda>bytes. if bytes = [] then None else Some (length bytes)),
      transform = (\<lambda>img. img)\<rparr>"

definition demo_weights :: "nat \<Rightarrow> nat \<Rightarrow> int" where
  "demo_weights x k = (if k = 5 then 1 else 0)"

definition boot :: "(nat, int) server" where
  "boot = \<lparr>users = [], next_oid = 0, files = [], weights = demo_weights,
            JWT_SECRET = ''signing-secret''\<rparr>"

definition alice :: user where
  "alice = \<lparr>oid = 0, name = JStr (ustr ''Alice''), email = JStr (ustr ''alice@example.org''),
             password = Bcrypt ''salt-a'' (ustr ''hunter2''), q1 = JStr (ustr ''blue''), q2 = JStr (ustr ''Rex''),
             createdAt = 1700000000000\<rparr>"

definition alice_form :: body where
  "alice_form =
     Dict [(''name'', JStr (ustr ''Alice'')), (''email'', JStr (ustr ''alice@example.org'')),
           (''password'', JStr (ustr ''hunter2'')), (''q1'', JStr (ustr ''blue'')), (''q2'', JStr (ustr ''Rex''))]"

definition alice_login :: body where
  "alice_login = Dict [(''email'', JStr (ustr ''alice@example.org'')), (''password'', JStr (ustr ''hunter2''))]"

definition leaf_upload :: upload where
  "leaf_upload = \<lparr>filename = ''leaf.png'', content = ''89504e47''\<rparr>"

definition photo_upload :: upload where
  "photo_upload = \<lparr>filename = ''photo.JPG'', content = ''ffd8ffe0''\<rparr>"

definition notes_upload :: upload where
  "notes_upload = \<lparr>filename = ''notes.txt'', content = ''89504e47''\<rparr>"

definition blank_upload :: upload where
  "blank_upload = \<lparr>filename = ''leaf.png'', content = []\<rparr>"















definition bob :: user where
  "bob = \<lparr>oid = 26, name = JStr (ustr ''Bob''), email = JStr (ustr ''bob@example.org''),
           password = Bcrypt ''salt-b'' (ustr ''pa55word''), q1 = JStr (ustr ''green''),
           q2 = JStr (ustr ''Tom''), createdAt = 1700000050000\<rparr>"

definition two_users :: "(nat, int) server" where
  "two_users = boot\<lparr>users := [alice, bob], next_oid := 27\<rparr>"

definition alice_token :: bearer where
  "alice_token =
     Signed ''signing-secret''
       (Claims ''000000000000000000000000'' (JStr (ustr ''Alice'')) 1700007200)"

definition one_user :: "(nat, int) server" where
  "one_user = boot\<lparr>users := [alice], next_oid := 1\<rparr>"

section \<open>Upload validation: properties\<close>

lemma rfind_None: "rfind s c = None \<longleftrightarrow> c \<notin> set s"
  by (induction s) (auto split: option.splits)

lemma rfind_append: "c \<notin> set b \<Longrightarrow> rfind (a @ c # b) c = Some (length a)"
  by (induction a) (auto simp: rfind_None split: option.splits)

lemma rsplit_last: "c \<notin> set b \<Longrightarrow> rsplit (a @ c # b) c = [a, b]"
  by (simp add: rsplit_def rfind_append)

lemma allowed_file_split:
  assumes "CHR ''.'' \<notin> set b"
  shows "allowed_file (a @ CHR ''.'' # b) = Inr (lower b \<in> set ALLOWED_EXTENSIONS)"
  using assms by (simp add: allowed_file_def rsplit_last py_index_def)

lemma allowed_file_no_dot: "CHR ''.'' \<notin> set f \<Longrightarrow> allowed_file f = Inr False"
  by (simp add: allowed_file_def)

lemma last_dot_unique:
  assumes "a @ c # b = a' @ c # b'" "(c::char) \<notin> set b" "c \<notin> set b'"
  shows "b = b'"
proof -
  have "[a, b] = rsplit (a @ c # b) c" using assms(2) by (simp add: rsplit_last)
  also have "\<dots> = rsplit (a' @ c # b') c" by (simp only: assms(1))
  also have "\<dots> = [a', b']" using assms(3) by (simp add: rsplit_last)
  finally show ?thesis by simp
qed

lemma allowed_file_iff:
  "allowed_file f =
     Inr (\<exists>a b. f = a @ CHR ''.'' # b \<and> CHR ''.'' \<notin> set b \<and>
            lower b \<in> {''png'', ''jpg'', ''jpeg''})"
proof (cases "CHR ''.'' \<in> set f")
  case False
  then have "\<not> (\<exists>a b. f = a @ CHR ''.'' # b \<and> CHR ''.'' \<notin> set b \<and>
          lower b \<in> {''png'', ''jpg'', ''jpeg''})" by auto
  with False show ?thesis by (simp add: allowed_file_no_dot)
next
  case True
  then obtain a b where f: "f = a @ CHR ''.'' # b" and b: "CHR ''.'' \<notin> set b"
    by (auto dest: split_list_last)
  have "(\<exists>a' b'. f = a' @ CHR ''.'' # b' \<and> CHR ''.'' \<notin> set b' \<and>
          lower b' \<in> {''png'', ''jpg'', ''jpeg''}) \<longleftrightarrow>
        lower b \<in> {''png'', ''jpg'', ''jpeg''}"
    using f b by (auto dest: last_dot_unique)
  then show ?thesis using f b by (simp add: allowed_file_split ALLOWED_EXTENSIONS_def)
qed

lemmas allowed_file_eval =
  allowed_file_def rsplit_def py_index_def lower_def lower_char_def ALLOWED_EXTENSIONS_def



section \<open>The classifier: properties\<close>

lemma torch_max_Some:
  "xs \<noteq> [] \<Longrightarrow> \<exists>m i. torch_max xs = Some (m, i) \<and> i < length xs \<and> xs ! i = m \<and>
     (\<forall>j < length xs. xs ! j \<le> m)"
proof (induction xs)
  case Nil
  then show ?case by simp
next
  case (Cons x xs)
  show ?case
  proof (cases "xs = []")
    case True
    then show ?thesis by simp
  next
    case False
    with Cons.IH obtain m i where mi: "torch_max xs = Some (m, i)" "i < length xs" "xs ! i = m"
      "\<forall>j < length xs. xs ! j \<le> m" by blast
    show ?thesis
    proof (cases "m \<le> x")
      case True
      with mi show ?thesis by (auto simp: nth_Cons split: nat.splits)
    next
      case False
      with mi show ?thesis by (auto simp: nth_Cons split: nat.splits)
    qed
  qed
qed

lemma length_classes: "length classes = 10"
  by (simp add: classes_def)

lemma distinct_classes: "distinct classes"
  by (simp add: classes_def)

lemma info_of_class:
  "c \<in> set classes \<Longrightarrow> \<exists>i. map_of disease_info c = Some i"
  by (auto simp: classes_def disease_info_def)

lemma model_scores:
  "\<exists>m k. torch_max (model w x) = Some (m, k) \<and> k < length classes \<and>
     (\<forall>j < length classes. w x j \<le> w x k)"
proof -
  have ne: "model w x \<noteq> []" by (simp add: model_def forward_def length_classes)
  have len: "length (model w x) = length classes" by (simp add: model_def forward_def)
  from torch_max_Some [OF ne] obtain m k where
    mk: "torch_max (model w x) = Some (m, k)" "k < length (model w x)" "model w x ! k = m"
      "\<forall>j < length (model w x). model w x ! j \<le> m" by blast
  have "\<forall>j < length classes. w x j \<le> w x k"
    using mk(2,3,4) len by (simp add: model_def forward_def)
  with mk(1,2) len show ?thesis by auto
qed

lemma map_of_save: "map_of (save p b fs) p = Some b"
  by (simp add: save_def)

lemma predict_accepted:
  assumes "allowed_file (filename f) = Inr True"
    and "Image_open L (content f) = Some img"
    and "torch_max (model (weights s) (transform L img)) = Some (m, k)"
    and "k < length classes"
  shows "fst (predict L (Some f) s) =
     Inr (Prediction (classes ! k) (info_definition (info_get (classes ! k)))
            (info_color (info_get (classes ! k)))
            (health_status (info_get (classes ! k)) = ''Healthy'')
            (''/static/uploads/'' @ secure_filename L (filename f)))"
  using assms
  by (simp add: predict_def classify_def Let_def map_of_save py_index_def)

lemma step_weights: "weights (snd (step L r s)) = weights s"
  by (cases r)
    (auto simp: predict_def register_def forgot_password_def delete_account_def insert_one_def
      Let_def split: option.splits sum.splits if_splits)

lemma exec_weights: "weights (exec L rs s) = weights s"
  by (induction rs arbitrary: s) (simp_all add: step_weights)

lemma step_secret: "JWT_SECRET (snd (step L r s)) = JWT_SECRET s"
  by (cases r)
    (auto simp: predict_def register_def forgot_password_def delete_account_def insert_one_def
      Let_def split: option.splits sum.splits if_splits)

lemma exec_secret: "JWT_SECRET (exec L rs s) = JWT_SECRET s"
  by (induction rs arbitrary: s) (simp_all add: step_secret)


lemma leaf_allowed: "allowed_file (filename leaf_upload) = Inr True"
  by (simp add: allowed_file_eval leaf_upload_def)

lemma photo_allowed: "allowed_file (filename photo_upload) = Inr True"
  by (simp add: allowed_file_eval photo_upload_def)

lemma notes_refused: "allowed_file (filename notes_upload) = Inr False"
  by (simp add: allowed_file_eval notes_upload_def)

lemma leaf_decodes: "Image_open demo_libs (content leaf_upload) = Some 8"
  by (simp add: demo_libs_def leaf_upload_def)

lemma photo_decodes: "Image_open demo_libs (content photo_upload) = Some 8"
  by (simp add: demo_libs_def photo_upload_def)

text \<open>
  Claim C1, as stated, at an upload with an accepted name whose bytes are no image (here the
  empty file): \<^verbatim>\<open>Image.open\<close> raises, nothing catches it, and the view gives no 200
  response.
\<close>

theorem predict_undecodable_counterexample:
  "allowed_file (filename blank_upload) = Inr True \<and>
   fst (predict demo_libs (Some blank_upload) boot) = Inl UnidentifiedImageError"
  by (simp add: allowed_file_eval predict_def classify_def demo_libs_def Let_def save_def
      path_join_def UPLOAD_FOLDER_def boot_def blank_upload_def)

text \<open>
  Claim C1, amended. Without the field \<^verbatim>\<open>image\<close> the response is 400; with a file name
  whose extension is not \<^verbatim>\<open>png\<close>, \<^verbatim>\<open>jpg\<close> or \<^verbatim>\<open>jpeg\<close> the response is 400; and with an
  accepted name and bytes that decode as an image the response is 200, its result is one of
  the 10 class labels, its definition and color are those of the \<^verbatim>\<open>disease_info\<close> entry of
  that label, and \<^verbatim>\<open>healthy\<close> holds exactly when the entry's health status is \<^verbatim>\<open>Healthy\<close>.
\<close>

theorem predict_spec:
  "predict L None s = (Inr (Failure 400 ''No image uploaded''), s)
   \<and> (\<not> (\<exists>a b. filename f = a @ CHR ''.'' # b \<and> CHR ''.'' \<notin> set b \<and>
            lower b \<in> {''png'', ''jpg'', ''jpeg''}) \<longrightarrow>
        predict L (Some f) s = (Inr (Failure 400 ''Unsupported file type''), s))
   \<and> ((\<exists>a b. filename f = a @ CHR ''.'' # b \<and> CHR ''.'' \<notin> set b \<and>
            lower b \<in> {''png'', ''jpg'', ''jpeg''}) \<and> Image_open L (content f) = Some img \<longrightarrow>
        (\<exists>label info url.
           fst (predict L (Some f) s) =
             Inr (Prediction label (info_definition info) (info_color info)
                    (health_status info = ''Healthy'') url) \<and>
           status (Prediction label (info_definition info) (info_color info)
                    (health_status info = ''Healthy'') url) = 200 \<and>
           label \<in> set classes \<and> length classes = 10 \<and> distinct classes \<and>
           map_of disease_info label = Some info))"
proof (intro conjI impI)
  show "predict L None s = (Inr (Failure 400 ''No image uploaded''), s)"
    by (simp add: predict_def)
next
  assume "\<not> (\<exists>a b. filename f = a @ CHR ''.'' # b \<and> CHR ''.'' \<notin> set b \<and>
            lower b \<in> {''png'', ''jpg'', ''jpeg''})"
  then have "allowed_file (filename f) = Inr False"
    by (simp only: allowed_file_iff [of "filename f"])
  then show "predict L (Some f) s = (Inr (Failure 400 ''Unsupported file type''), s)"
    by (simp add: predict_def)
next
  assume h: "(\<exists>a b. filename f = a @ CHR ''.'' # b \<and> CHR ''.'' \<notin> set b \<and>
            lower b \<in> {''png'', ''jpg'', ''jpeg''}) \<and> Image_open L (content f) = Some img"
  then have ok: "allowed_file (filename f) = Inr True"
    by (simp only: allowed_file_iff [of "filename f"])
  from h have dec: "Image_open L (content f) = Some img" by blast
  from model_scores [of "weights s" "transform L img"] obtain m k where
    mk: "torch_max (model (weights s) (transform L img)) = Some (m, k)" "k < length classes"
    by blast
  from mk(2) have mem: "classes ! k \<in> set classes" by simp
  from info_of_class [OF mem] obtain info where
    info: "map_of disease_info (classes ! k) = Some info" by blast
  then have ig: "info_get (classes ! k) = info" by (simp add: info_get_def)
  note p = predict_accepted [OF ok dec mk(1) mk(2), unfolded ig]
  show "\<exists>label info url.
           fst (predict L (Some f) s) =
             Inr (Prediction label (info_definition info) (info_color info)
                    (health_status info = ''Healthy'') url) \<and>
           status (Prediction label (info_definition info) (info_color info)
                    (health_status info = ''Healthy'') url) = 200 \<and>
           label \<in> set classes \<and> length classes = 10 \<and> distinct classes \<and>
           map_of disease_info label = Some info"
    apply (intro exI conjI)
         apply (rule p)
        apply simp
       apply (rule mem)
      apply (rule length_classes)
     apply (rule distinct_classes)
    apply (rule info)
    done
qed



theorem predict_spec_witness:
  "\<not> (\<exists>a b. filename notes_upload = a @ CHR ''.'' # b \<and> CHR ''.'' \<notin> set b \<and>
            lower b \<in> {''png'', ''jpg'', ''jpeg''}) \<and>
   predict demo_libs (Some notes_upload) boot =
     (Inr (Failure 400 ''Unsupported file type''), boot) \<and>
   ((\<exists>a b. filename leaf_upload = a @ CHR ''.'' # b \<and> CHR ''.'' \<notin> set b \<and>
            lower b \<in> {''png'', ''jpg'', ''jpeg''}) \<and>
    Image_open demo_libs (content leaf_upload) = Some 8) \<and>
   (\<exists>label info url.
      fst (predict demo_libs (Some leaf_upload) boot) =
        Inr (Prediction label (info_definition info) (info_color info)
               (health_status info = ''Healthy'') url) \<and>
      status (Prediction label (info_definition info) (info_color info)
               (health_status info = ''Healthy'') url) = 200 \<and>
      label \<in> set classes \<and> length classes = 10 \<and> distinct classes \<and>
      map_of disease_info label = Some info)"
proof -
  have hn: "\<not> (\<exists>a b. filename notes_upload = a @ CHR ''.'' # b \<and> CHR ''.'' \<notin> set b \<and>
            lower b \<in> {''png'', ''jpg'', ''jpeg''})"
    using notes_refused by (simp only: allowed_file_iff [of "filename notes_upload"]) simp
  have hy: "(\<exists>a b. filename leaf_upload = a @ CHR ''.'' # b \<and> CHR ''.'' \<notin> set b \<and>
            lower b \<in> {''png'', ''jpg'', ''jpeg''}) \<and>
    Image_open demo_libs (content leaf_upload) = Some 8"
    using leaf_allowed leaf_decodes
    by (simp only: allowed_file_iff [of "filename leaf_upload"]) simp
  note t1 = predict_spec [THEN conjunct2, THEN conjunct1, THEN mp, OF hn]
  note t2 = predict_spec [THEN conjunct2, THEN conjunct2, THEN mp, OF hy]
  show ?thesis
    by (intro conjI) (rule hn t1 hy [THEN conjunct1] hy [THEN conjunct2] t2)+
qed

text \<open>
  Claim C8. The label that \<^verbatim>\<open>predict\<close> returns is the class at an index of maximal raw
  score for the preprocessed image. No request changes the trained parameters, so a second
  \<^verbatim>\<open>predict\<close> request with the same decoded image, after any sequence of requests, returns the
  same label (with the same definition, color and health flag).
\<close>

theorem predict_deterministic:
  assumes "allowed_file (filename f1) = Inr True"
    and "allowed_file (filename f2) = Inr True"
    and "Image_open L (content f1) = Some img"
    and "Image_open L (content f2) = Some img"
  shows "\<exists>k d c h u1 u2.
      k < length classes \<and>
      (\<forall>j < length classes.
          weights s (transform L img) j \<le> weights s (transform L img) k) \<and>
      fst (predict L (Some f1) s) = Inr (Prediction (classes ! k) d c h u1) \<and>
      fst (predict L (Some f2) (exec L reqs s)) = Inr (Prediction (classes ! k) d c h u2) \<and>
      weights (exec L reqs s) = weights s"
proof -
  from model_scores [of "weights s" "transform L img"] obtain m k where
    mk: "torch_max (model (weights s) (transform L img)) = Some (m, k)" "k < length classes"
      "\<forall>j < length classes. weights s (transform L img) j \<le> weights s (transform L img) k"
    by blast
  have mk': "torch_max (model (weights (exec L reqs s)) (transform L img)) = Some (m, k)"
    using mk(1) by (simp add: exec_weights)
  note p1 = predict_accepted [OF assms(1) assms(3) mk(1) mk(2)]
  note p2 = predict_accepted [OF assms(2) assms(4) mk' mk(2)]
  show ?thesis
    by (intro exI conjI) (rule mk(2) mk(3) p1 p2 exec_weights)+
qed

theorem predict_deterministic_witness:
  "allowed_file (filename leaf_upload) = Inr True \<and>
   allowed_file (filename photo_upload) = Inr True \<and>
   Image_open demo_libs (content leaf_upload) = Some 8 \<and>
   Image_open demo_libs (content photo_upload) = Some 8 \<and>
   (\<exists>k d c h u1 u2.
      k < length classes \<and>
      (\<forall>j < length classes.
          weights boot (transform demo_libs 8) j \<le> weights boot (transform demo_libs 8) k) \<and>
      fst (predict demo_libs (Some leaf_upload) boot) =
        Inr (Prediction (classes ! k) d c h u1) \<and>
      fst (predict demo_libs (Some photo_upload)
             (exec demo_libs
                [POST_register alice_form ''salt-a'' 1000, POST_predict (Some blank_upload)]
                boot)) =
        Inr (Prediction (classes ! k) d c h u2) \<and>
      weights (exec demo_libs
                [POST_register alice_form ''salt-a'' 1000, POST_predict (Some blank_upload)]
                boot) = weights boot)"
  by (intro conjI)
    (rule leaf_allowed photo_allowed leaf_decodes photo_decodes
      predict_deterministic [OF leaf_allowed photo_allowed leaf_decodes photo_decodes])+

section \<open>Text, identifiers and time: properties\<close>


lemma length_ustr: "length (ustr s) = length s"
  by (simp add: ustr_def)

lemma ustr_nonempty: "ustr s = [] \<longleftrightarrow> s = []"
  by (simp add: ustr_def)

lemma utf8_ascii: "list_all (\<lambda>c. c < 128) t \<Longrightarrow> concat (map utf8 t) = t"
  by (induction t) (simp_all add: utf8_def)

lemma ascii_no_surrogate: "list_all (\<lambda>c. c < 128) t \<Longrightarrow> \<not> list_ex surrogate t"
  by (induction t) (simp_all add: surrogate_def)

lemma str_encode_ascii:
  "list_all (\<lambda>c. c < 128) t \<Longrightarrow> str_encode (JStr t) = Inr t"
  by (simp add: utf8_ascii ascii_no_surrogate)

lemma surrogate_range:
  "surrogate 55296 \<and> surrogate 57343 \<and> \<not> surrogate 55295 \<and> \<not> surrogate 57344"
  by (simp add: surrogate_def)

lemma utf8_samples:
  "utf8 65 = [65] \<and> utf8 233 = [195, 169] \<and> utf8 8364 = [226, 130, 172] \<and>
   utf8 128512 = [240, 159, 152, 128]"
  by (simp add: utf8_def)



lemma length_hex: "length (hex k n) = k"
  by (induction k arbitrary: n) simp_all

lemma hex_digit_inj:
  assumes "a < 16" "b < 16" "''0123456789abcdef'' ! a = ''0123456789abcdef'' ! b"
  shows "a = b"
proof -
  have d: "distinct ''0123456789abcdef''" by simp
  have l: "length ''0123456789abcdef'' = 16" by simp
  from assms d l show ?thesis by (simp add: nth_eq_iff_index_eq)
qed

lemma hex_inj: "n < 16 ^ k \<Longrightarrow> m < 16 ^ k \<Longrightarrow> hex k n = hex k m \<Longrightarrow> n = m"
proof (induction k arbitrary: n m)
  case 0
  then show ?case by simp
next
  case (Suc k)
  from Suc.prems(3) have tl: "hex k (n div 16) = hex k (m div 16)"
    and dg: "''0123456789abcdef'' ! (n mod 16) = ''0123456789abcdef'' ! (m mod 16)"
    by simp_all
  from Suc.prems(1,2) have "n div 16 < 16 ^ k" "m div 16 < 16 ^ k"
    by (simp_all add: less_mult_imp_div_less mult.commute)
  with tl Suc.IH have q: "n div 16 = m div 16" by blast
  have "n mod 16 < 16" "m mod 16 < 16" by simp_all
  with dg have r: "n mod 16 = m mod 16" by (rule hex_digit_inj [rotated 2])
  from q r show ?case by (metis div_mult_mod_eq)
qed

lemma str_oid_inj:
  "i < 2 ^ 96 \<Longrightarrow> j < 2 ^ 96 \<Longrightarrow> str_oid i = str_oid j \<Longrightarrow> i = j"
proof -
  have "(2::nat) ^ 96 = 16 ^ 24" by simp
  then show "i < 2 ^ 96 \<Longrightarrow> j < 2 ^ 96 \<Longrightarrow> str_oid i = str_oid j \<Longrightarrow> i = j"
    unfolding str_oid_def by (simp only: hex_inj)
qed

lemma length_str_oid: "length (str_oid i) = 24"
  by (simp add: str_oid_def length_hex)

lemma str_oid_0: "str_oid 0 = ''000000000000000000000000''"
  by code_simp

lemma str_oid_26: "str_oid 26 = ''00000000000000000000001a''"
  by code_simp

lemma set_hex: "set (hex k n) \<subseteq> set ''0123456789abcdef''"
proof (induction k arbitrary: n)
  case 0
  then show ?case by simp
next
  case (Suc k)
  have "n mod 16 < length ''0123456789abcdef''" by simp
  then have "''0123456789abcdef'' ! (n mod 16) \<in> set ''0123456789abcdef''"
    by (rule nth_mem)
  with Suc.IH [of "n div 16"] show ?case by simp
qed

lemma set_str_oid: "set (str_oid i) \<subseteq> set ''0123456789abcdef''"
  unfolding str_oid_def by (rule set_hex)

lemma timegm_two_hours: "timegm (now + 2 * 3600 * 1000000) = timegm now + 7200"
  by (simp add: timegm_def)

lemma timegm_7200: "timegm (now + 7200000000) = timegm now + 7200"
  by (simp add: timegm_def)

lemma timegm_bounds: "now - 1000000 < timegm now * 1000000 \<and> timegm now * 1000000 \<le> now"
  unfolding timegm_def by presburger


lemma hunter2_bytes: "str_encode (JStr (ustr ''hunter2'')) = Inr (ustr ''hunter2'')"
  by (rule str_encode_ascii) (simp add: ustr_def)

lemma hunter2_checks: "checkpw (ustr ''hunter2'') (password alice) = Inr True"
  by (simp add: checkpw_def hashpw_def alice_def length_ustr)



section \<open>Tokens and the user listing: properties\<close>

lemma user_list_eq:
  "user_list s =
     map (\<lambda>u. Doc (str_oid (oid u))
                [(''name'', Json (name u)), (''email'', Json (email u)),
                 (''q1'', Json (q1 u)), (''q2'', Json (q2 u)),
                 (''createdAt'', Datetime (createdAt u))]) (users s)"
  by (simp add: user_list_def find_excluding_def doc_of_def comp_def)

lemma get_users_valid:
  "now < exp c * 1000000 \<Longrightarrow>
   get_users (Some (Signed (JWT_SECRET s) c)) now s = UserList (length (users s)) (user_list s)"
  by (simp add: get_users_def login_required_def user_list_def find_excluding_def)

lemma get_users_expired:
  "exp c * 1000000 \<le> now \<Longrightarrow>
   get_users (Some (Signed (JWT_SECRET s) c)) now s = Failure 403 ''Token expired''"
  by (simp add: get_users_def login_required_def)

lemma jwt_decode_Inr:
  "jwt_decode tok key now = Inr c \<Longrightarrow> tok = Signed key c \<and> now < exp c * 1000000"
  by (cases tok) (auto split: if_splits)

lemma secret_one_user: "JWT_SECRET one_user = ''signing-secret''"
  by (simp add: one_user_def boot_def)

lemma secret_two_users: "JWT_SECRET two_users = ''signing-secret''"
  by (simp add: two_users_def boot_def)

lemma alice_token_valid:
  "jwt_decode alice_token (JWT_SECRET two_users) 1700000000500000 =
     Inr (Claims ''000000000000000000000000'' (JStr (ustr ''Alice'')) 1700007200)"
  by (simp add: alice_token_def secret_two_users)

lemma find_one_None: "find_one e us = None \<longleftrightarrow> e \<notin> email ` set us"
  by (auto simp: find_one_def find_None_iff)


lemma find_alice:
  "find_one (JStr (ustr ''alice@example.org'')) (users one_user) = Some alice"
  by (simp add: find_one_def one_user_def boot_def alice_def)

lemma login_LoggedIn:
  assumes "login data now s = Inr (LoggedIn msg tok nm)"
  shows "\<exists>em u. getitem data ''email'' = Inr em \<and> find_one em (users s) = Some u \<and>
           nm = name u \<and>
           tok = Signed (JWT_SECRET s) (Claims (str_oid (oid u)) (name u) (timegm now + 7200))"
  using assms
  by (auto simp: login_def Let_def timegm_7200 split: sum.splits option.splits if_splits)

lemma alice_logs_in:
  "login alice_login 1700000000500000 one_user = Inr (LoggedIn ''Logged in'' alice_token (JStr (ustr ''Alice'')))"
proof -
  have "name alice = JStr (ustr ''Alice'')" "oid alice = 0" by (simp_all add: alice_def)
  then show ?thesis
    by (simp add: login_def alice_login_def find_alice hunter2_bytes hunter2_checks
        timegm_def secret_one_user alice_token_def str_oid_0 del: str_encode.simps)
qed

lemma delete_alice:
  "delete_account alice_login one_user =
     (Inr (Message ''Account deleted successfully''), one_user\<lparr>users := []\<rparr>)"
proof -
  have "delete_one (oid alice) (users one_user) = []" by (simp add: one_user_def boot_def)
  then show ?thesis
    by (simp add: delete_account_def alice_login_def find_alice hunter2_bytes hunter2_checks
        ustr_nonempty del: str_encode.simps)
qed

lemma alice_deleted: "users (exec demo_libs [DELETE_delete alice_login] one_user) = []"
  by (simp add: delete_alice)

text \<open>
  Claim C2, as stated, at a request whose \<^verbatim>\<open>Authorization\<close> header is present and empty: the
  empty text is no valid token, yet the guard \<^verbatim>\<open>if not token\<close> answers 401, not 403.
\<close>

theorem get_users_empty_header_counterexample:
  "jwt_decode (Text []) (JWT_SECRET boot) 0 = Inl InvalidTokenError \<and>
   get_users (Some (Text [])) 0 boot = Failure 401 ''Token missing'' \<and>
   status (get_users (Some (Text [])) 0 boot) \<noteq> 403"
  by (simp add: get_users_def login_required_def)

text \<open>
  Claim C2, amended. For \<^verbatim>\<open>GET /users\<close>: without the header, or with an empty header, the
  response is 401; with a token signed with the secret that has expired the response is 403;
  with any other non-empty header that does not verify (any other text, or a token signed
  with another key) the response is 403; and with an unexpired token signed with the secret it
  is 200, with \<^verbatim>\<open>count\<close> the number of user records and \<^verbatim>\<open>users\<close> every record without
  its password field. The header is used as it stands.
\<close>

theorem get_users_spec:
  "get_users None now s = Failure 401 ''Token missing''
   \<and> get_users (Some (Text [])) now s = Failure 401 ''Token missing''
   \<and> (exp c * 1000000 \<le> now \<longrightarrow>
        get_users (Some (Signed (JWT_SECRET s) c)) now s = Failure 403 ''Token expired'')
   \<and> (t \<noteq> [] \<longrightarrow> get_users (Some (Text t)) now s = Failure 403 ''Invalid token'')
   \<and> (k \<noteq> JWT_SECRET s \<longrightarrow>
        get_users (Some (Signed k c)) now s = Failure 403 ''Invalid token'')
   \<and> (now < exp c * 1000000 \<longrightarrow>
        get_users (Some (Signed (JWT_SECRET s) c)) now s =
          UserList (length (users s))
            (map (\<lambda>u. Doc (str_oid (oid u))
                         (filter (\<lambda>(key, v). key \<noteq> ''password'') (doc_fields (doc_of u))))
               (users s))
        \<and> status (get_users (Some (Signed (JWT_SECRET s) c)) now s) = 200)"
proof (intro conjI impI)
  show "get_users None now s = Failure 401 ''Token missing''"
    by (simp add: get_users_def login_required_def)
  show "get_users (Some (Text [])) now s = Failure 401 ''Token missing''"
    by (simp add: get_users_def login_required_def)
  show "get_users (Some (Signed (JWT_SECRET s) c)) now s = Failure 403 ''Token expired''"
    if "exp c * 1000000 \<le> now" using that by (rule get_users_expired)
  show "get_users (Some (Text t)) now s = Failure 403 ''Invalid token''"
    if "t \<noteq> []" using that by (simp add: get_users_def login_required_def)
  show "get_users (Some (Signed k c)) now s = Failure 403 ''Invalid token''"
    if "k \<noteq> JWT_SECRET s" using that by (simp add: get_users_def login_required_def)
  show "get_users (Some (Signed (JWT_SECRET s) c)) now s =
          UserList (length (users s))
            (map (\<lambda>u. Doc (str_oid (oid u))
                         (filter (\<lambda>(key, v). key \<noteq> ''password'') (doc_fields (doc_of u))))
               (users s))"
    if "now < exp c * 1000000" using that
    by (simp add: get_users_valid user_list_def find_excluding_def doc_of_def comp_def)
  show "status (get_users (Some (Signed (JWT_SECRET s) c)) now s) = 200"
    if "now < exp c * 1000000" using that by (simp add: get_users_valid)
qed

theorem get_users_spec_witness:
  "exp (Claims (str_oid 0) (JStr (ustr ''Alice'')) 1700007200) * 1000000 \<le> 1700007200000000 \<and>
   get_users (Some (Signed (JWT_SECRET one_user)
       (Claims (str_oid 0) (JStr (ustr ''Alice'')) 1700007200)))
     1700007200000000 one_user = Failure 403 ''Token expired'' \<and>
   ''Bearer abc'' \<noteq> [] \<and>
   get_users (Some (Text ''Bearer abc'')) 1700007200000000 one_user =
     Failure 403 ''Invalid token'' \<and>
   ''another-secret'' \<noteq> JWT_SECRET one_user \<and>
   get_users (Some (Signed ''another-secret''
       (Claims (str_oid 0) (JStr (ustr ''Alice'')) 1700007200)))
     1700000000500000 one_user = Failure 403 ''Invalid token'' \<and>
   1700000000500000 < exp (Claims (str_oid 0) (JStr (ustr ''Alice'')) 1700007200) * 1000000 \<and>
   status (get_users (Some (Signed (JWT_SECRET one_user)
       (Claims (str_oid 0) (JStr (ustr ''Alice'')) 1700007200))) 1700000000500000 one_user) = 200"
proof -
  have h1: "exp (Claims (str_oid 0) (JStr (ustr ''Alice'')) 1700007200) * 1000000
      \<le> 1700007200000000" by simp
  have h2: "''Bearer abc'' \<noteq> []" by simp
  have h3: "''another-secret'' \<noteq> JWT_SECRET one_user" by (simp add: secret_one_user)
  have h4: "1700000000500000 < exp (Claims (str_oid 0) (JStr (ustr ''Alice'')) 1700007200) * 1000000"
    by simp
  note t1 = get_users_spec [THEN conjunct2, THEN conjunct2, THEN conjunct1, THEN mp, OF h1]
  note t2 = get_users_spec [THEN conjunct2, THEN conjunct2, THEN conjunct2, THEN conjunct1,
      THEN mp, OF h2]
  note t3 = get_users_spec [THEN conjunct2, THEN conjunct2, THEN conjunct2, THEN conjunct2,
      THEN conjunct1, THEN mp, OF h3]
  note t4 = get_users_spec [THEN conjunct2, THEN conjunct2, THEN conjunct2, THEN conjunct2,
      THEN conjunct2, THEN mp, OF h4, THEN conjunct2]
  show ?thesis
    by (intro conjI) (rule h1 h2 h3 h4 t1 t2 t3 t4)+
qed

text \<open>
  Claim C10. For a holder of a valid token the listing has, for every user record, the
  \<^verbatim>\<open>_id\<close> as a string and the fields name, email, q1, q2 and createdAt with their stored
  values: of the stored fields only the password is left out, and the security answers and
  the email of every user are in the response. The string of an \<^verbatim>\<open>_id\<close> is its 24
  hexadecimal digits, and different identifiers (of 12 bytes) have different strings.
\<close>

theorem users_listing:
  assumes "jwt_decode tok (JWT_SECRET s) now = Inr c"
  shows "get_users (Some tok) now s =
     UserList (length (users s))
       (map (\<lambda>u. Doc (str_oid (oid u))
                [(''name'', Json (name u)), (''email'', Json (email u)),
                 (''q1'', Json (q1 u)), (''q2'', Json (q2 u)),
                 (''createdAt'', Datetime (createdAt u))]) (users s))
     \<and> map fst (doc_fields (doc_of u)) =
         [''name'', ''email'', ''password'', ''q1'', ''q2'', ''createdAt'']
     \<and> length (str_oid i) = 24
     \<and> set (str_oid i) \<subseteq> set ''0123456789abcdef''
     \<and> (i < 2 ^ 96 \<and> j < 2 ^ 96 \<and> str_oid i = str_oid j \<longrightarrow> i = j)"
proof -
  from jwt_decode_Inr [OF assms] have tok: "tok = Signed (JWT_SECRET s) c"
    and live: "now < exp c * 1000000" by simp_all
  have "get_users (Some tok) now s = UserList (length (users s)) (user_list s)"
    unfolding tok using live by (rule get_users_valid)
  then have listing: "get_users (Some tok) now s =
     UserList (length (users s))
       (map (\<lambda>u. Doc (str_oid (oid u))
                [(''name'', Json (name u)), (''email'', Json (email u)),
                 (''q1'', Json (q1 u)), (''q2'', Json (q2 u)),
                 (''createdAt'', Datetime (createdAt u))]) (users s))"
    by (simp add: user_list_eq)
  have keys: "map fst (doc_fields (doc_of u)) =
         [''name'', ''email'', ''password'', ''q1'', ''q2'', ''createdAt'']"
    by (simp add: doc_of_def)
  have inj: "i < 2 ^ 96 \<and> j < 2 ^ 96 \<and> str_oid i = str_oid j \<longrightarrow> i = j"
    by (blast intro: str_oid_inj)
  from listing keys length_str_oid [of i] set_str_oid [of i] inj show ?thesis
    by (intro conjI)
qed

theorem users_listing_witness:
  "jwt_decode alice_token (JWT_SECRET two_users) 1700000000500000 =
     Inr (Claims ''000000000000000000000000'' (JStr (ustr ''Alice'')) 1700007200) \<and>
   get_users (Some alice_token) 1700000000500000 two_users =
     UserList 2
       [Doc ''000000000000000000000000''
          [(''name'', Json (JStr (ustr ''Alice''))),
           (''email'', Json (JStr (ustr ''alice@example.org''))),
           (''q1'', Json (JStr (ustr ''blue''))), (''q2'', Json (JStr (ustr ''Rex''))),
           (''createdAt'', Datetime 1700000000000)],
        Doc ''00000000000000000000001a''
          [(''name'', Json (JStr (ustr ''Bob''))),
           (''email'', Json (JStr (ustr ''bob@example.org''))),
           (''q1'', Json (JStr (ustr ''green''))), (''q2'', Json (JStr (ustr ''Tom''))),
           (''createdAt'', Datetime 1700000050000)]] \<and>
   ((0::nat) < 2 ^ 96 \<and> (26::nat) < 2 ^ 96) \<and> str_oid 0 \<noteq> str_oid 26"
proof -
  note t = users_listing [OF alice_token_valid, of alice 0 26]
  have listing: "get_users (Some alice_token) 1700000000500000 two_users =
     UserList 2
       [Doc ''000000000000000000000000''
          [(''name'', Json (JStr (ustr ''Alice''))),
           (''email'', Json (JStr (ustr ''alice@example.org''))),
           (''q1'', Json (JStr (ustr ''blue''))), (''q2'', Json (JStr (ustr ''Rex''))),
           (''createdAt'', Datetime 1700000000000)],
        Doc ''00000000000000000000001a''
          [(''name'', Json (JStr (ustr ''Bob''))),
           (''email'', Json (JStr (ustr ''bob@example.org''))),
           (''q1'', Json (JStr (ustr ''green''))), (''q2'', Json (JStr (ustr ''Tom''))),
           (''createdAt'', Datetime 1700000050000)]]"
    using t [THEN conjunct1]
    by (simp add: two_users_def boot_def alice_def bob_def str_oid_0 str_oid_26)
  have bound: "(0::nat) < 2 ^ 96 \<and> (26::nat) < 2 ^ 96" by simp
  have "str_oid 0 \<noteq> str_oid 26"
    using t [THEN conjunct2, THEN conjunct2, THEN conjunct2, THEN conjunct2] bound by auto
  with alice_token_valid listing bound show ?thesis by blast
qed

text \<open>
  Claim C5, as stated, at a login half a second after a full second: \<^verbatim>\<open>jwt.encode\<close> cuts
  the expiry down to whole seconds, so \<^verbatim>\<open>exp\<close> is not the time of issue plus two hours, and
  the token is refused 0.3 seconds before two hours have passed.
\<close>

theorem login_token_subsecond_counterexample:
  "login alice_login 1700000000500000 one_user =
     Inr (LoggedIn ''Logged in''
            (Signed ''signing-secret''
               (Claims ''000000000000000000000000'' (JStr (ustr ''Alice'')) 1700007200))
            (JStr (ustr ''Alice''))) \<and>
   (1700007200 :: int) * 1000000 \<noteq> 1700000000500000 + 2 * 3600 * 1000000 \<and>
   (1700007200200000 :: int) < 1700000000500000 + 2 * 3600 * 1000000 \<and>
   get_users
     (Some (Signed ''signing-secret''
        (Claims ''000000000000000000000000'' (JStr (ustr ''Alice'')) 1700007200)))
     1700007200200000 one_user = Failure 403 ''Token expired''"
  using alice_logs_in
  by (simp add: alice_token_def get_users_def login_required_def secret_one_user)

text \<open>
  Claim C5, amended. A token issued by \<^verbatim>\<open>login\<close> carries the identifier of the user as text
  (its 24 hexadecimal digits, from which the identifier can be read back), the name, and as
  \<^verbatim>\<open>exp\<close> the whole seconds of the time of issue plus 7200 seconds, which is at most two
  hours and more than two hours less one second after the issue. \<^verbatim>\<open>GET /users\<close> answers 200
  to the token at every time before that expiry, after any sequence of requests, the deletion
  of the account it was issued for included, and 403 from the expiry on.
\<close>

theorem login_token:
  assumes "login data now s = Inr (LoggedIn msg tok nm)"
  shows "(\<exists>em u.
      getitem data ''email'' = Inr em \<and> find_one em (users s) = Some u \<and>
      tok = Signed (JWT_SECRET s) (Claims (str_oid (oid u)) (name u) (timegm now + 7200)) \<and>
      length (str_oid (oid u)) = 24 \<and>
      set (str_oid (oid u)) \<subseteq> set ''0123456789abcdef'' \<and>
      (\<forall>i. i < 2 ^ 96 \<and> oid u < 2 ^ 96 \<and> str_oid i = str_oid (oid u) \<longrightarrow> i = oid u)) \<and>
    now + 2 * 3600 * 1000000 - 1000000 < (timegm now + 7200) * 1000000 \<and>
    (timegm now + 7200) * 1000000 \<le> now + 2 * 3600 * 1000000 \<and>
    (\<forall>reqs now'. now' < (timegm now + 7200) * 1000000 \<longrightarrow>
        get_users (Some tok) now' (exec L reqs s) =
          UserList (length (users (exec L reqs s))) (user_list (exec L reqs s)) \<and>
        status (get_users (Some tok) now' (exec L reqs s)) = 200) \<and>
    (\<forall>reqs now'. (timegm now + 7200) * 1000000 \<le> now' \<longrightarrow>
        get_users (Some tok) now' (exec L reqs s) = Failure 403 ''Token expired'')"
proof -
  from login_LoggedIn [OF assms] obtain em u where
    eu: "getitem data ''email'' = Inr em" "find_one em (users s) = Some u"
    and tok: "tok = Signed (JWT_SECRET s) (Claims (str_oid (oid u)) (name u) (timegm now + 7200))"
    by blast
  have inj: "\<forall>i. i < 2 ^ 96 \<and> oid u < 2 ^ 96 \<and> str_oid i = str_oid (oid u) \<longrightarrow> i = oid u"
    by (blast intro: str_oid_inj)
  from timegm_bounds [of now]
  have lo: "now + 2 * 3600 * 1000000 - 1000000 < (timegm now + 7200) * 1000000"
    and hi: "(timegm now + 7200) * 1000000 \<le> now + 2 * 3600 * 1000000"
    by simp_all
  have later: "\<forall>reqs now'. now' < (timegm now + 7200) * 1000000 \<longrightarrow>
          get_users (Some tok) now' (exec L reqs s) =
            UserList (length (users (exec L reqs s))) (user_list (exec L reqs s)) \<and>
          status (get_users (Some tok) now' (exec L reqs s)) = 200"
  proof (intro allI impI)
    fix reqs now'
    assume "now' < (timegm now + 7200) * 1000000"
    then have "now' < exp (Claims (str_oid (oid u)) (name u) (timegm now + 7200)) * 1000000"
      by simp
    from get_users_valid [OF this, of "exec L reqs s"]
    have "get_users (Some tok) now' (exec L reqs s) =
            UserList (length (users (exec L reqs s))) (user_list (exec L reqs s))"
      by (simp add: tok exec_secret)
    then show "get_users (Some tok) now' (exec L reqs s) =
            UserList (length (users (exec L reqs s))) (user_list (exec L reqs s)) \<and>
          status (get_users (Some tok) now' (exec L reqs s)) = 200"
      by simp
  qed
  have over: "\<forall>reqs now'. (timegm now + 7200) * 1000000 \<le> now' \<longrightarrow>
          get_users (Some tok) now' (exec L reqs s) = Failure 403 ''Token expired''"
  proof (intro allI impI)
    fix reqs now'
    assume "(timegm now + 7200) * 1000000 \<le> now'"
    then have "exp (Claims (str_oid (oid u)) (name u) (timegm now + 7200)) * 1000000 \<le> now'"
      by simp
    from get_users_expired [OF this, of "exec L reqs s"]
    show "get_users (Some tok) now' (exec L reqs s) = Failure 403 ''Token expired''"
      by (simp add: tok exec_secret)
  qed
  have first: "\<exists>em u.
      getitem data ''email'' = Inr em \<and> find_one em (users s) = Some u \<and>
      tok = Signed (JWT_SECRET s) (Claims (str_oid (oid u)) (name u) (timegm now + 7200)) \<and>
      length (str_oid (oid u)) = 24 \<and>
      set (str_oid (oid u)) \<subseteq> set ''0123456789abcdef'' \<and>
      (\<forall>i. i < 2 ^ 96 \<and> oid u < 2 ^ 96 \<and> str_oid i = str_oid (oid u) \<longrightarrow> i = oid u)"
    using eu tok length_str_oid [of "oid u"] set_str_oid [of "oid u"] inj
    by (intro exI conjI)
  from first lo hi later over show ?thesis by (intro conjI)
qed

theorem login_token_witness:
  "login alice_login 1700000000500000 one_user =
     Inr (LoggedIn ''Logged in'' alice_token (JStr (ustr ''Alice''))) \<and>
   alice_token =
     Signed ''signing-secret''
       (Claims ''000000000000000000000000'' (JStr (ustr ''Alice'')) 1700007200) \<and>
   users (exec demo_libs [DELETE_delete alice_login] one_user) = [] \<and>
   (1700007199999999 :: int) < 1700007200 * 1000000 \<and>
   get_users (Some alice_token) 1700007199999999
     (exec demo_libs [DELETE_delete alice_login] one_user) = UserList 0 [] \<and>
   get_users (Some alice_token) 1700007200000000
     (exec demo_libs [DELETE_delete alice_login] one_user) = Failure 403 ''Token expired''"
proof -
  note t = login_token [OF alice_logs_in, of demo_libs]
  note later = t [THEN conjunct2, THEN conjunct2, THEN conjunct2, THEN conjunct1]
  note over = t [THEN conjunct2, THEN conjunct2, THEN conjunct2, THEN conjunct2]
  have e: "timegm 1700000000500000 + 7200 = 1700007200" by (simp add: timegm_def)
  have before: "(1700007199999999 :: int) < 1700007200 * 1000000" by simp
  have "get_users (Some alice_token) 1700007199999999
      (exec demo_libs [DELETE_delete alice_login] one_user) =
    UserList (length (users (exec demo_libs [DELETE_delete alice_login] one_user)))
      (user_list (exec demo_libs [DELETE_delete alice_login] one_user))"
    using later [rule_format, of 1700007199999999 "[DELETE_delete alice_login]"] e by simp
  then have ok: "get_users (Some alice_token) 1700007199999999
      (exec demo_libs [DELETE_delete alice_login] one_user) = UserList 0 []"
    by (simp add: delete_alice user_list_eq)
  have late: "get_users (Some alice_token) 1700007200000000
      (exec demo_libs [DELETE_delete alice_login] one_user) = Failure 403 ''Token expired''"
    using over [rule_format, of 1700007200000000 "[DELETE_delete alice_login]"] e by simp
  from alice_logs_in alice_token_def alice_deleted before ok late show ?thesis by blast
qed

text \<open>
  Claim C7, evaluated at bodies that lack a required field: \<^verbatim>\<open>register\<close> and \<^verbatim>\<open>login\<close>
  subscript \<^verbatim>\<open>data\<close> without a check, so the views raise \<^verbatim>\<open>KeyError\<close> and give no 400
  response, where \<^verbatim>\<open>delete_account\<close> checks the presence of its fields first.
\<close>

theorem missing_field_raises:
  "register (Dict []) salt now s = (Inl KeyError, s)
   \<and> login (Dict []) now s = Inl KeyError
   \<and> register (Dict [(''email'', JStr (ustr ''bob@example.org''))]) salt now boot =
       (Inl KeyError, boot)
   \<and> login (Dict [(''email'', JStr (ustr ''alice@example.org''))]) now one_user = Inl KeyError"
  by (simp add: register_def login_def find_one_def boot_def one_user_def alice_def)

section \<open>Accounts: properties\<close>



lemma register_state:
  "snd (register data salt now s) = s \<or>
   (\<exists>nm em h a1 a2. find_one em (users s) = None \<and> getitem data ''email'' = Inr em \<and>
      fst (register data salt now s) = Inr (Message ''Registered successfully'') \<and>
      snd (register data salt now s) = insert_one nm em h a1 a2 now s)"
  by (simp add: register_def split: sum.split option.split) blast














lemma forgot_state:
  "snd (forgot_password data salt s) = s \<or>
   (\<exists>e h. fst (forgot_password data salt s) = Inr (Message ''Password updated successfully'') \<and>
      snd (forgot_password data salt s) = s\<lparr>users := update_one e h (users s)\<rparr>)"
  by (simp add: forgot_password_def split: sum.split option.split) blast









section \<open>Deleting an account: properties\<close>



lemma map_email_update_one: "map email (update_one e h us) = map email us"
  by (induction us) auto

lemma map_oid_update_one: "map oid (update_one e h us) = map oid us"
  by (induction us) auto

lemma set_delete_one: "set (delete_one i us) \<subseteq> set us"
  by (induction us) auto



lemma delete_state:
  "snd (delete_account data s) = s \<or>
   (\<exists>i. fst (delete_account data s) = Inr (Message ''Account deleted successfully'') \<and>
      snd (delete_account data s) = s\<lparr>users := delete_one i (users s)\<rparr>)"
  by (simp add: delete_account_def split: sum.split option.split) blast





lemma predict_users: "users (snd (predict L f s)) = users s"
  by (auto simp: predict_def Let_def split: option.splits sum.splits)










text \<open>
  The invariant of the collection holds at the start and after every request.
\<close>

lemma store_ok_boot: "store_ok boot"
  by (simp add: store_ok_def boot_def)


lemma distinct_delete_one: "distinct (map f us) \<Longrightarrow> distinct (map f (delete_one i us))"
proof (induction us)
  case Nil
  then show ?case by simp
next
  case (Cons u us)
  with set_delete_one [of i us] show ?case by (auto simp: image_iff)
qed

lemma store_ok_cong:
  "users s' = users s \<Longrightarrow> next_oid s' = next_oid s \<Longrightarrow> store_ok s' = store_ok s"
  by (simp add: store_ok_def)

lemma store_ok_insert_one:
  assumes "store_ok s" and "find_one em (users s) = None"
  shows "store_ok (insert_one nm em h a1 a2 now s)"
proof -
  from assms(1) have below: "\<forall>u \<in> set (users s). oid u < next_oid s"
    by (simp add: store_ok_def list_all_iff)
  then have fresh: "next_oid s \<notin> oid ` set (users s)" by auto
  from assms(2) have new: "em \<notin> email ` set (users s)" by (simp add: find_one_None)
  from below have "\<forall>u \<in> set (users s). oid u < Suc (next_oid s)" by auto
  with assms(1) fresh new show ?thesis
    by (simp add: store_ok_def insert_one_def list_all_iff)
qed

lemma oid_below_update_one:
  "list_all (\<lambda>u. oid u < n) (update_one e h us) = list_all (\<lambda>u. oid u < n) us"
  by (induction us) auto

lemma store_ok_update_one:
  assumes "store_ok s"
  shows "store_ok (s\<lparr>users := update_one e h (users s)\<rparr>)"
  using assms
  by (simp add: store_ok_def oid_below_update_one map_oid_update_one map_email_update_one)

lemma store_ok_delete_one:
  assumes "store_ok s"
  shows "store_ok (s\<lparr>users := delete_one i (users s)\<rparr>)"
  using assms set_delete_one [of i "users s"]
  by (auto simp: store_ok_def list_all_iff distinct_delete_one)

lemma predict_next_oid: "next_oid (snd (predict L f s)) = next_oid s"
  by (auto simp: predict_def Let_def split: option.splits sum.splits)

lemma store_ok_step: "store_ok s \<Longrightarrow> store_ok (snd (step L r s))"
proof (cases r)
  case (POST_predict f)
  assume "store_ok s"
  with POST_predict show ?thesis
    by (simp add: store_ok_cong [OF predict_users predict_next_oid])
next
  case (POST_register data salt now)
  assume "store_ok s"
  with POST_register register_state [of data salt now s] show ?thesis
    by (auto simp: store_ok_insert_one)
next
  case (POST_login data now)
  assume "store_ok s"
  with POST_login show ?thesis by simp
next
  case (POST_forgot_password data salt)
  assume "store_ok s"
  with POST_forgot_password forgot_state [of data salt s] show ?thesis
    by (auto simp: store_ok_update_one)
next
  case (DELETE_delete data)
  assume "store_ok s"
  with DELETE_delete delete_state [of data s] show ?thesis
    by (auto simp: store_ok_delete_one)
next
  case (GET_users auth now)
  assume "store_ok s"
  with GET_users show ?thesis by simp
qed

lemma store_ok_exec: "store_ok s \<Longrightarrow> store_ok (exec L reqs s)"
  by (induction reqs arbitrary: s) (simp_all add: store_ok_step)
















end
